theory Spec2Isabelle
  imports Main
begin

section \<open>The lastuser OAuth2 server: authorization and token endpoints\<close>

text \<open>
  A shallow embedding of the two OAuth2 server views of \<^verbatim>\<open>server/website.py\<close>,
  \<^verbatim>\<open>oauth_authorize\<close> (route \<^verbatim>\<open>/auth\<close>) and \<^verbatim>\<open>oauth_token\<close> (route \<^verbatim>\<open>/token\<close>),
  with the helpers they call. The program is Python 2 on Flask and SQLAlchemy.

  \<^item> A request parameter read with \<^verbatim>\<open>request.args.get(k)\<close> is a \<open>string option\<close>
    (\<open>None\<close> when the key is absent).
  \<^item> The database is a record of tables, each a list of rows in insertion order;
    \<^verbatim>\<open>query.filter_by(...).first()\<close> is \<open>find\<close> on that list. Columns that no
    OAuth view reads (titles, descriptions, audit dates of clients, ...) are left out.
  \<^item> \<^verbatim>\<open>db.session\<close> is the list of pending objects; \<^verbatim>\<open>db.session.commit()\<close> inserts
    them, and it is only then that SQLAlchemy fills in the column defaults
    (\<^verbatim>\<open>default=...\<close>). A column with a default is therefore an \<open>option\<close>: \<open>None\<close>
    on the fresh Python object, \<open>Some\<close> on every stored row.
  \<^item> A view returns a response or raises: its result is \<open>py_error + response\<close>.
  \<^item> \<^verbatim>\<open>uuid.uuid4()\<close> is an entropy source: an infinite sequence of 22-character
    identifiers and a counter of how many were drawn.
  \<^item> The functions of the Python standard library and of Werkzeug that the views
    call (\<^verbatim>\<open>urlparse.urlsplit\<close>, \<^verbatim>\<open>parse_qsl\<close>, \<^verbatim>\<open>urlencode\<close>, \<^verbatim>\<open>urlunsplit\<close>,
    \<^verbatim>\<open>check_password_hash\<close>) are parameters, collected in the record \<open>pylib\<close>.
  \<^item> Time is an integer number of microseconds, the resolution of \<^verbatim>\<open>datetime\<close>;
    \<^verbatim>\<open>datetime.utcnow()\<close> is the parameter \<open>now\<close> of a view.
\<close>

subsection \<open>Python values\<close>

datatype py_error =
    AttributeError  \<comment> \<open>attribute access on \<^verbatim>\<open>None\<close>\<close>
  | TypeError       \<comment> \<open>\<^verbatim>\<open>raise\<close> of an object that is no exception; comparison with \<^verbatim>\<open>None\<close>\<close>
  | ValueError      \<comment> \<open>raised by \<^verbatim>\<open>urlsplit\<close> on a malformed URL; a view that returns \<^verbatim>\<open>None\<close>\<close>
  | UnicodeError    \<comment> \<open>raised by \<^verbatim>\<open>urlencode\<close> on text it cannot encode\<close>

text \<open>Truth value of \<^verbatim>\<open>not x\<close> for \<open>x\<close> a string or \<^verbatim>\<open>None\<close>.\<close>

definition falsy :: "string option \<Rightarrow> bool" where
  "falsy x = (x = None \<or> x = Some [])"

text \<open>\<^verbatim>\<open>d.get(k, u'')\<close>: the value, or the empty string when the key is absent.\<close>

definition get_default :: "string option \<Rightarrow> string \<Rightarrow> string" where
  "get_default x d = (case x of None \<Rightarrow> d | Some s \<Rightarrow> s)"

text \<open>
  \<^verbatim>\<open>s.split(u' ')\<close>: split at every single space. With an explicit separator Python
  never returns the empty list: \<^verbatim>\<open>u''.split(u' ') == [u'']\<close>.
\<close>

fun py_split :: "string \<Rightarrow> string list" where
  "py_split [] = [[]]"
| "py_split (c # cs) =
     (if c = CHR '' '' then [] # py_split cs
      else (case py_split cs of
              [] \<Rightarrow> [[c]]
            | w # ws \<Rightarrow> (c # w) # ws))"

text \<open>\<^verbatim>\<open>u' '.join(xs)\<close>.\<close>

fun py_join :: "string list \<Rightarrow> string" where
  "py_join [] = []"
| "py_join [x] = x"
| "py_join (x # y # ys) = x @ '' '' @ py_join (y # ys)"

datatype json = JNull | JStr string | JInt int

definition json_of_str :: "string option \<Rightarrow> json" where
  "json_of_str x = (case x of None \<Rightarrow> JNull | Some s \<Rightarrow> JStr s)"

subsection \<open>Library functions taken as parameters\<close>

text \<open>
  \<^verbatim>\<open>urlparse.urlsplit(url)\<close> returns a 5-tuple with a derived \<^verbatim>\<open>hostname\<close> attribute
  (\<^verbatim>\<open>None\<close> when the URL has no network location).
\<close>

record split_result =
  sr_scheme :: string
  sr_netloc :: string
  sr_path :: string
  sr_query :: string
  sr_fragment :: string
  sr_hostname :: "string option"

record pylib =
  urlsplit :: "string \<Rightarrow> py_error + split_result"
  parse_qsl :: "string \<Rightarrow> (string \<times> string) list"
  make_query_string :: "(string \<times> string) list \<Rightarrow> py_error + string"
  urlunsplit :: "string list \<Rightarrow> string"
  check_password_hash :: "string \<Rightarrow> string \<Rightarrow> bool"

subsection \<open>Models\<close>

record user =
  user_id :: nat
  user_userid :: string
  user_username :: "string option"
  user_pw_hash :: "string option"

record useremail =
  useremail_user_id :: nat
  useremail_email :: "string option"

record client =
  client_id :: nat
  client_redirect_uri :: string
  client_active :: bool
  client_key :: string
  client_secret :: string
  client_trusted :: bool

text \<open>
  \<^verbatim>\<open>AuthCode\<close>. \<open>authcode_datetime\<close> (default \<^verbatim>\<open>datetime.utcnow\<close>) and \<open>authcode_used\<close>
  (default \<^verbatim>\<open>False\<close>) are filled in when the row is inserted.
\<close>

record authcode =
  authcode_user_id :: nat
  authcode_client_id :: nat
  authcode_code :: string
  authcode_scope_col :: string
  authcode_redirect_uri :: string
  authcode_datetime :: "int option"
  authcode_used :: "bool option"

text \<open>The \<^verbatim>\<open>scope\<close> property of \<^verbatim>\<open>AuthCode\<close> and \<^verbatim>\<open>AuthToken\<close>: getter and setter.\<close>

definition authcode_scope :: "authcode \<Rightarrow> string list" where
  "authcode_scope a = py_split (authcode_scope_col a)"

text \<open>
  \<^verbatim>\<open>AuthToken\<close>. \<open>authtoken_user_id\<close> is nullable (client-only tokens);
  \<open>authtoken_token_type\<close> (default \<^verbatim>\<open>'bearer'\<close>), \<open>authtoken_validity\<close> (default 0)
  and \<open>authtoken_created_datetime\<close> are filled in when the row is inserted.
\<close>

record authtoken =
  authtoken_user_id :: "nat option"
  authtoken_client_id :: nat
  authtoken_token :: string
  authtoken_token_type :: "string option"
  authtoken_secret :: "string option"
  authtoken_scope_col :: string
  authtoken_created_datetime :: "int option"
  authtoken_validity :: "int option"
  authtoken_refresh_token :: string

definition authtoken_scope :: "authtoken \<Rightarrow> string list" where
  "authtoken_scope t = py_split (authtoken_scope_col t)"

subsection \<open>Database, session and entropy\<close>

datatype pending = NewAuthCode authcode | NewAuthToken authtoken

record state =
  users :: "user list"
  useremails :: "useremail list"
  clients :: "client list"
  authcodes :: "authcode list"
  authtokens :: "authtoken list"
  session :: "pending list"
  uuid4 :: "nat \<Rightarrow> string"
  uuid_count :: nat

text \<open>\<^verbatim>\<open>newid()\<close>: the next identifier of the entropy source.\<close>

definition newid :: "state \<Rightarrow> string \<times> state" where
  "newid st = (uuid4 st (uuid_count st), st\<lparr>uuid_count := Suc (uuid_count st)\<rparr>)"

text \<open>\<^verbatim>\<open>newsecret()\<close> is \<^verbatim>\<open>newid()+newid()\<close>.\<close>

definition newsecret :: "state \<Rightarrow> string \<times> state" where
  "newsecret st =
     (let (a, st1) = newid st;
          (b, st2) = newid st1
      in (a @ b, st2))"

definition db_session_add :: "pending \<Rightarrow> state \<Rightarrow> state" where
  "db_session_add obj st = st\<lparr>session := session st @ [obj]\<rparr>"

text \<open>Inserting one pending object: the column defaults apply to what was left unset.\<close>

definition insert_row :: "int \<Rightarrow> state \<Rightarrow> pending \<Rightarrow> state" where
  "insert_row now st obj =
     (case obj of
        NewAuthCode a \<Rightarrow>
          st\<lparr>authcodes := authcodes st @
               [a\<lparr>authcode_datetime :=
                      (case authcode_datetime a of None \<Rightarrow> Some now | Some d \<Rightarrow> Some d),
                   authcode_used :=
                      (case authcode_used a of None \<Rightarrow> Some False | Some u \<Rightarrow> Some u)\<rparr>]\<rparr>
      | NewAuthToken t \<Rightarrow>
          st\<lparr>authtokens := authtokens st @
               [t\<lparr>authtoken_token_type :=
                      (case authtoken_token_type t of None \<Rightarrow> Some ''bearer'' | Some x \<Rightarrow> Some x),
                   authtoken_created_datetime :=
                      (case authtoken_created_datetime t of None \<Rightarrow> Some now | Some d \<Rightarrow> Some d),
                   authtoken_validity :=
                      (case authtoken_validity t of None \<Rightarrow> Some 0 | Some v \<Rightarrow> Some v)\<rparr>]\<rparr>)"

definition db_session_commit :: "int \<Rightarrow> state \<Rightarrow> state" where
  "db_session_commit now st = (foldl (insert_row now) st (session st))\<lparr>session := []\<rparr>"

subsection \<open>Responses\<close>

datatype response =
    Redirect string nat
      \<comment> \<open>\<^verbatim>\<open>redirect(location, code=...)\<close>\<close>
  | Oauth403 string
      \<comment> \<open>\<^verbatim>\<open>Response(render_template('oauth403.html', reason=reason), 403)\<close>\<close>
  | AuthorizePage client string "string list" "string option"
      \<comment> \<open>\<^verbatim>\<open>render_template('authorize.html', ...)\<close>: client, redirect_uri, scope, state\<close>
  | JsonResponse "(string \<times> json) list" nat "(string \<times> string) list"
      \<comment> \<open>\<^verbatim>\<open>jsonify(**params)\<close>: body, status code, headers set by the view\<close>



subsection \<open>Utilities\<close>

text \<open>
  \<^verbatim>\<open>make_redirect_url(url, **params)\<close>: append \<open>params\<close> to the query of \<open>url\<close>.
  The keyword dictionary is an association list in the order the caller fills it.
  One caller passes \<^verbatim>\<open>None\<close> for \<open>url\<close>; \<^verbatim>\<open>urlsplit(None)\<close> calls \<^verbatim>\<open>None.find\<close>, an
  \<^verbatim>\<open>AttributeError\<close>.
\<close>

definition make_redirect_url ::
  "pylib \<Rightarrow> string option \<Rightarrow> (string \<times> string) list \<Rightarrow> py_error + string" where
  "make_redirect_url L url params =
     (case url of
        None \<Rightarrow> Inl AttributeError
      | Some u \<Rightarrow>
          (case urlsplit L u of
             Inl e \<Rightarrow> Inl e
           | Inr sr \<Rightarrow>
               (let urlparts = [sr_scheme sr, sr_netloc sr, sr_path sr, sr_query sr, sr_fragment sr];
                    queryparts = parse_qsl L (urlparts ! 3) @ params
                in (case make_query_string L queryparts of
                      Inl e \<Rightarrow> Inl e
                    | Inr q \<Rightarrow> Inr (urlunsplit L (urlparts[3 := q]))))))"

text \<open>\<^verbatim>\<open>redirect(make_redirect_url(url, **params), code=302)\<close>.\<close>

definition redirect_to ::
  "pylib \<Rightarrow> string option \<Rightarrow> (string \<times> string) list \<Rightarrow> py_error + response" where
  "redirect_to L url params =
     (case make_redirect_url L url params of
        Inl e \<Rightarrow> Inl e
      | Inr location \<Rightarrow> Inr (Redirect location 302))"

subsection \<open>OAuth server routes: the authorization endpoint\<close>

definition oauth_auth_403 :: "string \<Rightarrow> response" where
  "oauth_auth_403 reason = Oauth403 reason"

text \<open>
  \<^verbatim>\<open>oauth_make_auth_code(client, scope, redirect_uri)\<close>, with \<^verbatim>\<open>g.user\<close> as the
  argument \<open>g_user\<close>: the new object goes to the session, the caller commits.
\<close>

definition oauth_make_auth_code ::
  "user \<Rightarrow> client \<Rightarrow> string list \<Rightarrow> string \<Rightarrow> state \<Rightarrow> string \<times> state" where
  "oauth_make_auth_code g_user cl scope redirect_uri st =
     (let (code, st1) = newsecret st;
          authcode = \<lparr>authcode_user_id = user_id g_user,
                      authcode_client_id = client_id cl,
                      authcode_code = code,
                      authcode_scope_col = py_join scope,
                      authcode_redirect_uri = redirect_uri,
                      authcode_datetime = None,
                      authcode_used = None\<rparr>
      in (code, db_session_add (NewAuthCode authcode) st1))"

definition oauth_auth_success ::
  "pylib \<Rightarrow> int \<Rightarrow> string \<Rightarrow> string option \<Rightarrow> string \<Rightarrow> state
     \<Rightarrow> (py_error + response) \<times> state" where
  "oauth_auth_success L now redirect_uri state code st =
     (let st1 = db_session_commit now st
      in (case state of
            None \<Rightarrow> (redirect_to L (Some redirect_uri) [(''code'', code)], st1)
          | Some s \<Rightarrow> (redirect_to L (Some redirect_uri) [(''code'', code), (''state'', s)], st1)))"

definition oauth_auth_error ::
  "pylib \<Rightarrow> string option \<Rightarrow> string option \<Rightarrow> string \<Rightarrow> string option \<Rightarrow> string option
     \<Rightarrow> py_error + response" where
  "oauth_auth_error L redirect_uri state error error_description error_uri =
     (let params = [(''error'', error)];
          params = (case state of None \<Rightarrow> params | Some s \<Rightarrow> params @ [(''state'', s)]);
          params = (case error_description of
                      None \<Rightarrow> params
                    | Some d \<Rightarrow> params @ [(''error_description'', d)]);
          params = (case error_uri of None \<Rightarrow> params | Some u \<Rightarrow> params @ [(''error_uri'', u)])
      in redirect_to L redirect_uri params)"

datatype http_method = GET | POST

text \<open>
  What \<^verbatim>\<open>oauth_authorize\<close> reads of the request: the query arguments, the method,
  whether \<^verbatim>\<open>'accept'\<close> and \<^verbatim>\<open>'deny'\<close> are keys of \<^verbatim>\<open>request.form\<close>, and whether the
  CSRF form validates.
\<close>

record auth_request =
  req_method :: http_method
  args_response_type :: "string option"
  args_client_id :: "string option"
  args_redirect_uri :: "string option"
  args_scope :: "string option"
  args_state :: "string option"
  form_accept :: bool
  form_deny :: bool
  form_validate :: bool

text \<open>\<^verbatim>\<open>form.validate_on_submit()\<close> only validates a submitted (POST) form.\<close>

definition validate_on_submit :: "auth_request \<Rightarrow> bool" where
  "validate_on_submit rq = (req_method rq = POST \<and> form_validate rq)"

text \<open>
  \<^verbatim>\<open>oauth_authorize\<close> from \<^verbatim>\<open>Validation 2.1\<close> to its end, with the local variable
  \<open>redirect_uri\<close> as \<^verbatim>\<open>Validation 1.4\<close> leaves it.
\<close>

definition oauth_authorize_validated ::
  "pylib \<Rightarrow> int \<Rightarrow> user \<Rightarrow> auth_request \<Rightarrow> client \<Rightarrow> string \<Rightarrow> state
     \<Rightarrow> (py_error + response) \<times> state" where
  "oauth_authorize_validated L now g_user rq cl redirect_uri st =
     (let response_type = args_response_type rq;
          scope = py_split (get_default (args_scope rq) []);
          state = args_state rq
      in if falsy response_type then
           (oauth_auth_error L (Some redirect_uri) state ''invalid_request''
              (Some ''response_type missing'') None, st)
         else if response_type \<noteq> Some ''code'' then
           (oauth_auth_error L (Some redirect_uri) state ''unsupported_response_type'' None None, st)
         else if scope = [] then
           (oauth_auth_error L (Some redirect_uri) state ''invalid_request''
              (Some ''Scope not specified'') None, st)
         else if scope \<noteq> [''id''] then
           (oauth_auth_error L (Some redirect_uri) state ''invalid_scope'' None None, st)
         else if req_method rq = GET \<and> client_trusted cl then
           (let (code, st1) = oauth_make_auth_code g_user cl scope redirect_uri st
            in oauth_auth_success L now redirect_uri state code st1)
         else if validate_on_submit rq then
           (if form_accept rq then
              (let (code, st1) = oauth_make_auth_code g_user cl scope redirect_uri st
               in oauth_auth_success L now redirect_uri state code st1)
            else if form_deny rq then
              (oauth_auth_error L (Some redirect_uri) state ''access_denied'' None None, st)
            else (Inr (AuthorizePage cl redirect_uri scope state), st))
         else (Inr (AuthorizePage cl redirect_uri scope state), st))"

text \<open>
  The body of \<^verbatim>\<open>oauth_authorize\<close>, for the logged-in user \<open>g_user\<close>
  (the decorator \<^verbatim>\<open>requires_login\<close> is \<open>requires_login\<close> below).
\<close>

definition oauth_authorize ::
  "pylib \<Rightarrow> int \<Rightarrow> user \<Rightarrow> auth_request \<Rightarrow> state \<Rightarrow> (py_error + response) \<times> state" where
  "oauth_authorize L now g_user rq st =
     (let redirect_uri = args_redirect_uri rq;
          state = args_state rq
      in if falsy (args_client_id rq) then
           (if falsy redirect_uri then (Inr (oauth_auth_403 ''Missing client_id''), st)
            else (oauth_auth_error L redirect_uri state ''invalid_request''
                    (Some ''client_id missing'') None, st))
         else
           (case find (\<lambda>c. Some (client_key c) = args_client_id rq) (clients st) of
              None \<Rightarrow>
                (if falsy redirect_uri then (Inr (oauth_auth_403 ''Unknown client_id''), st)
                 else (oauth_auth_error L redirect_uri state ''unauthorized_client'' None None, st))
            | Some cl \<Rightarrow>
                if \<not> client_active cl then
                  (oauth_auth_error L redirect_uri state ''unauthorized_client'' None None, st)
                else
                  (case redirect_uri of
                     None \<Rightarrow> oauth_authorize_validated L now g_user rq cl (client_redirect_uri cl) st
                   | Some uri \<Rightarrow>
                       if uri = [] then
                         oauth_authorize_validated L now g_user rq cl (client_redirect_uri cl) st
                       else if uri \<noteq> client_redirect_uri cl then
                         (case urlsplit L uri of
                            Inl e \<Rightarrow> (Inl e, st)
                          | Inr a \<Rightarrow>
                              (case urlsplit L (client_redirect_uri cl) of
                                 Inl e \<Rightarrow> (Inl e, st)
                               | Inr b \<Rightarrow>
                                   if sr_hostname a \<noteq> sr_hostname b then
                                     (oauth_auth_error L (Some uri) state ''invalid_request''
                                        (Some ''Redirect URI hostname doesn't match'') None, st)
                                   else oauth_authorize_validated L now g_user rq cl uri st))
                       else oauth_authorize_validated L now g_user rq cl uri st)))"

text \<open>
  \<^verbatim>\<open>requires_login\<close>: without a logged-in user the view is not run and the browser is
  sent to the login page (\<open>login_url\<close> is \<^verbatim>\<open>url_for('login', next=request.url)\<close>).
\<close>

definition requires_login ::
  "string \<Rightarrow> (user \<Rightarrow> state \<Rightarrow> (py_error + response) \<times> state) \<Rightarrow> user option \<Rightarrow> state
     \<Rightarrow> (py_error + response) \<times> state" where
  "requires_login login_url f g_user st =
     (case g_user of
        None \<Rightarrow> (Inr (Redirect login_url 302), st)
      | Some u \<Rightarrow> f u st)"

subsection \<open>OAuth server routes: the token endpoint\<close>

text \<open>\<^verbatim>\<open>oauth_token_error\<close>: a JSON body with status 400.\<close>

definition oauth_token_error :: "string \<Rightarrow> string option \<Rightarrow> string option \<Rightarrow> response" where
  "oauth_token_error error error_description error_uri =
     (let params = [(''error'', JStr error)];
          params = (case error_description of
                      None \<Rightarrow> params
                    | Some d \<Rightarrow> params @ [(''error_description'', JStr d)]);
          params = (case error_uri of
                      None \<Rightarrow> params
                    | Some u \<Rightarrow> params @ [(''error_uri'', JStr u)])
      in JsonResponse params 400 [])"

text \<open>
  \<^verbatim>\<open>oauth_make_token(user, client, scope)\<close>: \<open>user\<close> is the id of the user, or \<^verbatim>\<open>None\<close>.
  The constructor sets user, client and scope; the three assignments draw the
  identifiers in the order of the source. \<open>token_type\<close> and \<open>validity\<close> are not set.
\<close>

definition oauth_make_token ::
  "nat option \<Rightarrow> client \<Rightarrow> string list \<Rightarrow> state \<Rightarrow> authtoken \<times> state" where
  "oauth_make_token usr cl scope st =
     (let (tok, st1) = newid st;
          (refresh, st2) = newid st1;
          (sec, st3) = newsecret st2;
          token = \<lparr>authtoken_user_id = usr,
                   authtoken_client_id = client_id cl,
                   authtoken_token = tok,
                   authtoken_token_type = None,
                   authtoken_secret = Some sec,
                   authtoken_scope_col = py_join scope,
                   authtoken_created_datetime = None,
                   authtoken_validity = None,
                   authtoken_refresh_token = refresh\<rparr>
      in (token, db_session_add (NewAuthToken token) st3))"

text \<open>Truth value of \<^verbatim>\<open>token.validity\<close>: \<^verbatim>\<open>None\<close> and 0 are false.\<close>

definition truthy_int :: "int option \<Rightarrow> bool" where
  "truthy_int v = (case v of None \<Rightarrow> False | Some n \<Rightarrow> n \<noteq> 0)"

definition json_of_int :: "int option \<Rightarrow> json" where
  "json_of_int v = (case v of None \<Rightarrow> JNull | Some n \<Rightarrow> JInt n)"

text \<open>
  \<^verbatim>\<open>oauth_token_success(token)\<close>: the body is built from the Python object, then the
  session is committed.
\<close>

definition oauth_token_success :: "int \<Rightarrow> authtoken \<Rightarrow> state \<Rightarrow> response \<times> state" where
  "oauth_token_success now token st =
     (let params = [(''access_token'', JStr (authtoken_token token)),
                    (''token_type'', json_of_str (authtoken_token_type token)),
                    (''scope'', JStr (py_join (authtoken_scope token)))];
          params = (if truthy_int (authtoken_validity token)
                    then params @ [(''expires_in'', json_of_int (authtoken_validity token)),
                                   (''refresh_token'', JStr (authtoken_refresh_token token))]
                    else params);
          response = JsonResponse params 200 [(''Cache-Control'', ''no-store'')]
      in (response, db_session_commit now st))"

record token_request =
  form_grant_type :: "string option"
  form_client_id :: "string option"
  form_client_secret :: "string option"
  form_scope :: "string option"
  form_code :: "string option"
  form_redirect_uri :: "string option"
  form_username :: "string option"
  form_password :: "string option"

text \<open>\<^verbatim>\<open>timedelta(minutes=n)\<close> in microseconds.\<close>

definition timedelta_minutes :: "int \<Rightarrow> int" where
  "timedelta_minutes n = n * 60 * 1000000"

text \<open>
  The branch \<^verbatim>\<open>grant_type == 'authorization_code'\<close> of \<^verbatim>\<open>oauth_token\<close>. The source
  writes \<^verbatim>\<open>raise oauth_token_error(...)\<close> where the scope is not a subset: the operand
  is a response object, not an exception, and Python 2 raises \<^verbatim>\<open>TypeError\<close>.
\<close>

definition oauth_token_authorization_code ::
  "int \<Rightarrow> token_request \<Rightarrow> client \<Rightarrow> state \<Rightarrow> (py_error + response) \<times> state" where
  "oauth_token_authorization_code now rq cl st =
     (let scope = py_split (get_default (form_scope rq) []);
          code = form_code rq;
          redirect_uri = form_redirect_uri rq
      in (case find (\<lambda>a. Some (authcode_code a) = code \<and> authcode_client_id a = client_id cl)
                 (authcodes st) of
            None \<Rightarrow> (Inr (oauth_token_error ''invalid_grant'' (Some ''Unknown auth code'') None), st)
          | Some authcode \<Rightarrow>
              (case authcode_datetime authcode of
                 None \<Rightarrow> (Inl TypeError, st)
               | Some issued \<Rightarrow>
                   if issued < now - timedelta_minutes 1 then
                     (Inr (oauth_token_error ''invalid_grant'' (Some ''Expired auth code'') None), st)
                   else if scope = [] then
                     (Inr (oauth_token_error ''invalid_scope'' (Some ''Scope is blank'') None), st)
                   else if \<not> set scope \<subseteq> set (authcode_scope authcode) then
                     (Inl TypeError, st)
                   else
                     (let scope = authcode_scope authcode
                      in if redirect_uri \<noteq> Some (authcode_redirect_uri authcode) then
                           (Inr (oauth_token_error ''invalid_client''
                                   (Some ''redirect_uri does not match'') None), st)
                         else
                           (let (token, st1) =
                                  oauth_make_token (Some (authcode_user_id authcode)) cl scope st;
                                (response, st2) = oauth_token_success now token st1
                            in (Inr response, st2))))))"

text \<open>The branch \<^verbatim>\<open>grant_type == 'client_credentials'\<close>.\<close>

definition oauth_token_client_credentials ::
  "int \<Rightarrow> token_request \<Rightarrow> client \<Rightarrow> state \<Rightarrow> (py_error + response) \<times> state" where
  "oauth_token_client_credentials now rq cl st =
     (let scope = py_split (get_default (form_scope rq) []);
          (token, st1) = oauth_make_token None cl scope st;
          (response, st2) = oauth_token_success now token st1
      in (Inr response, st2))"

text \<open>
  The user lookup of the password grant. \<^verbatim>\<open>UserEmail.query...first().user\<close> reads the
  attribute \<^verbatim>\<open>user\<close> of what \<^verbatim>\<open>first()\<close> returns, which is \<^verbatim>\<open>None\<close> when no row
  matches.
\<close>

definition lookup_user :: "string \<Rightarrow> state \<Rightarrow> py_error + user option" where
  "lookup_user username st =
     (if CHR ''@'' \<in> set username then
        (case find (\<lambda>e. useremail_email e = Some username) (useremails st) of
           None \<Rightarrow> Inl AttributeError
         | Some e \<Rightarrow> Inr (find (\<lambda>u. user_id u = useremail_user_id e) (users st)))
      else Inr (find (\<lambda>u. user_username u = Some username) (users st)))"

text \<open>
  \<^verbatim>\<open>User.check_password\<close>: \<^verbatim>\<open>check_password_hash(self.pw_hash, password)\<close>, which calls
  a string method of the hash.
\<close>

definition check_password :: "pylib \<Rightarrow> user \<Rightarrow> string \<Rightarrow> py_error + bool" where
  "check_password L u password =
     (case user_pw_hash u of
        None \<Rightarrow> Inl AttributeError
      | Some h \<Rightarrow> Inr (check_password_hash L h password))"

text \<open>The branch \<^verbatim>\<open>grant_type == 'password'\<close>.\<close>

definition oauth_token_password ::
  "pylib \<Rightarrow> int \<Rightarrow> token_request \<Rightarrow> client \<Rightarrow> state \<Rightarrow> (py_error + response) \<times> state" where
  "oauth_token_password L now rq cl st =
     (let scope = py_split (get_default (form_scope rq) []);
          username = form_username rq;
          password = form_password rq
      in if \<not> client_trusted cl then
           (Inr (oauth_token_error ''unauthorized_client''
                   (Some ''Client is not trusted for password grant_type'') None), st)
         else if falsy username \<or> falsy password then
           (Inr (oauth_token_error ''invalid_request''
                   (Some ''Username or password not provided'') None), st)
         else
           (case lookup_user (get_default username []) st of
              Inl e \<Rightarrow> (Inl e, st)
            | Inr None \<Rightarrow>
                (Inr (oauth_token_error ''invalid_client'' (Some ''No such user'') None), st)
            | Inr (Some u) \<Rightarrow>
                (case check_password L u (get_default password []) of
                   Inl e \<Rightarrow> (Inl e, st)
                 | Inr ok \<Rightarrow>
                     if \<not> ok then
                       (Inr (oauth_token_error ''invalid_client'' (Some ''Password mismatch'') None), st)
                     else
                       (let (token, st1) = oauth_make_token (Some (user_id u)) cl scope st;
                            (response, st2) = oauth_token_success now token st1
                        in (Inr response, st2)))))"

text \<open>
  \<^verbatim>\<open>oauth_token\<close>. After the last \<^verbatim>\<open>elif\<close> the function ends without a \<^verbatim>\<open>return\<close>; Flask
  rejects a view that returns \<^verbatim>\<open>None\<close> with a \<^verbatim>\<open>ValueError\<close>.
\<close>

definition oauth_token ::
  "pylib \<Rightarrow> int \<Rightarrow> token_request \<Rightarrow> state \<Rightarrow> (py_error + response) \<times> state" where
  "oauth_token L now rq st =
     (let grant_type = form_grant_type rq
      in if falsy grant_type \<or> falsy (form_client_id rq) \<or> falsy (form_client_secret rq) then
           (Inr (oauth_token_error ''invalid_request'' None None), st)
         else if grant_type \<notin> set [Some ''authorization_code'', Some ''client_credentials'',
                                        Some ''password''] then
           (Inr (oauth_token_error ''unsupported_grant_type'' None None), st)
         else
           (case find (\<lambda>c. Some (client_key c) = form_client_id rq) (clients st) of
              None \<Rightarrow> (Inr (oauth_token_error ''invalid_client'' (Some ''Unknown client_id'') None), st)
            | Some cl \<Rightarrow>
                if \<not> client_active cl then
                  (Inr (oauth_token_error ''invalid_client'' (Some ''Unknown client_id'') None), st)
                else if form_client_secret rq \<noteq> Some (client_secret cl) then
                  (Inr (oauth_token_error ''invalid_client'' (Some ''client_secret mismatch'') None), st)
                else if grant_type = Some ''password'' \<and> \<not> client_trusted cl then
                  (Inr (oauth_token_error ''unauthorized_client''
                          (Some ''Client not trusted for password grant_type'') None), st)
                else if grant_type = Some ''authorization_code'' then
                  oauth_token_authorization_code now rq cl st
                else if grant_type = Some ''client_credentials'' then
                  oauth_token_client_credentials now rq cl st
                else if grant_type = Some ''password'' then
                  oauth_token_password L now rq cl st
                else (Inl ValueError, st)))"

subsection \<open>A sample deployment\<close>

text \<open>
  Concrete values on which the views can be run. \<open>sample_lib\<close> stands in for the
  library on URLs of the shape \<^verbatim>\<open>https://host/path?query\<close> (no port, user or
  fragment; no escaping in the query); any other text is a relative path.
\<close>

definition split_at_char :: "char \<Rightarrow> string \<Rightarrow> string \<times> string" where
  "split_at_char c s = (takeWhile (\<lambda>x. x \<noteq> c) s, drop 1 (dropWhile (\<lambda>x. x \<noteq> c) s))"

definition sample_urlsplit :: "string \<Rightarrow> py_error + split_result" where
  "sample_urlsplit u =
     (if take 8 u = ''https://'' then
        (let rest = drop 8 u;
             host = takeWhile (\<lambda>x. x \<noteq> CHR ''/'' \<and> x \<noteq> CHR ''?'') rest;
             (path, query) = split_at_char CHR ''?'' (drop (length host) rest)
         in Inr \<lparr>sr_scheme = ''https'', sr_netloc = host, sr_path = path, sr_query = query,
                 sr_fragment = [], sr_hostname = (if host = [] then None else Some host)\<rparr>)
      else
        (let (path, query) = split_at_char CHR ''?'' u
         in Inr \<lparr>sr_scheme = [], sr_netloc = [], sr_path = path, sr_query = query,
                 sr_fragment = [], sr_hostname = None\<rparr>))"

fun sample_parse_qsl :: "string \<Rightarrow> (string \<times> string) list" where
  "sample_parse_qsl q = (if q = [] then [] else [split_at_char CHR ''='' q])"

fun sample_make_query_string :: "(string \<times> string) list \<Rightarrow> string" where
  "sample_make_query_string [] = []"
| "sample_make_query_string [(k, v)] = k @ ''='' @ v"
| "sample_make_query_string ((k, v) # kv # kvs) =
     k @ ''='' @ v @ ''&'' @ sample_make_query_string (kv # kvs)"

definition sample_urlunsplit :: "string list \<Rightarrow> string" where
  "sample_urlunsplit parts =
     (case parts of
        [scheme, netloc, path, query, fragment] \<Rightarrow>
          (if netloc = [] then [] else scheme @ ''://'' @ netloc) @ path
          @ (if query = [] then [] else ''?'' @ query)
      | _ \<Rightarrow> [])"

definition sample_lib :: pylib where
  "sample_lib =
     \<lparr>urlsplit = sample_urlsplit,
      parse_qsl = sample_parse_qsl,
      make_query_string = (\<lambda>kvs. Inr (sample_make_query_string kvs)),
      urlunsplit = sample_urlunsplit,
      check_password_hash = (\<lambda>h p. h = ''plain:'' @ p)\<rparr>"

definition alice :: user where
  "alice = \<lparr>user_id = 1, user_userid = ''useridAAAAAAAAAAAAAAAA'',
            user_username = Some ''alice'', user_pw_hash = Some ''plain:wonderland''\<rparr>"

text \<open>A trusted client, a deactivated client and an ordinary client.\<close>

definition trusted_app :: client where
  "trusted_app = \<lparr>client_id = 1, client_redirect_uri = ''https://app.example/cb'',
                  client_active = True, client_key = ''key-trusted'',
                  client_secret = ''secret-trusted'', client_trusted = True\<rparr>"

definition retired_app :: client where
  "retired_app = \<lparr>client_id = 2, client_redirect_uri = ''https://old.example/cb'',
                  client_active = False, client_key = ''key-retired'',
                  client_secret = ''secret-retired'', client_trusted = False\<rparr>"

definition plain_app :: client where
  "plain_app = \<lparr>client_id = 3, client_redirect_uri = ''https://plain.example/cb'',
                client_active = True, client_key = ''key-plain'',
                client_secret = ''secret-plain'', client_trusted = False\<rparr>"

text \<open>A grant issued to \<open>plain_app\<close> for \<open>alice\<close> at time 1000 s, scope \<^verbatim>\<open>id\<close>.\<close>

definition sample_grant :: authcode where
  "sample_grant = \<lparr>authcode_user_id = 1, authcode_client_id = 3,
                   authcode_code = ''code-1'', authcode_scope_col = ''id'',
                   authcode_redirect_uri = ''https://plain.example/cb'',
                   authcode_datetime = Some 1000000000, authcode_used = Some False\<rparr>"

definition sample_uuid4 :: "nat \<Rightarrow> string" where
  "sample_uuid4 n =
     (if n = 0 then ''uuid-0-AAAAAAAAAAAAAAA''
      else if n = 1 then ''uuid-1-AAAAAAAAAAAAAAA''
      else if n = 2 then ''uuid-2-AAAAAAAAAAAAAAA''
      else if n = 3 then ''uuid-3-AAAAAAAAAAAAAAA''
      else if n = 4 then ''uuid-4-AAAAAAAAAAAAAAA''
      else if n = 5 then ''uuid-5-AAAAAAAAAAAAAAA''
      else if n = 6 then ''uuid-6-AAAAAAAAAAAAAAA''
      else if n = 7 then ''uuid-7-AAAAAAAAAAAAAAA''
      else ''uuid-8-AAAAAAAAAAAAAAA'')"

definition sample_state :: state where
  "sample_state =
     \<lparr>users = [alice],
      useremails = [\<lparr>useremail_user_id = 1, useremail_email = Some ''alice@example.com''\<rparr>],
      clients = [trusted_app, retired_app, plain_app],
      authcodes = [sample_grant],
      authtokens = [],
      session = [],
      uuid4 = sample_uuid4,
      uuid_count = 0\<rparr>"

definition auth_request_of ::
  "string option \<Rightarrow> string option \<Rightarrow> string option \<Rightarrow> auth_request" where
  "auth_request_of cid uri scope =
     \<lparr>req_method = GET, args_response_type = Some ''code'', args_client_id = cid,
      args_redirect_uri = uri, args_scope = scope, args_state = None,
      form_accept = False, form_deny = False, form_validate = False\<rparr>"

definition code_request :: "string option \<Rightarrow> token_request" where
  "code_request scope =
     \<lparr>form_grant_type = Some ''authorization_code'', form_client_id = Some ''key-plain'',
      form_client_secret = Some ''secret-plain'', form_scope = scope,
      form_code = Some ''code-1'', form_redirect_uri = Some ''https://plain.example/cb'',
      form_username = None, form_password = None\<rparr>"

definition credentials_request :: token_request where
  "credentials_request =
     \<lparr>form_grant_type = Some ''client_credentials'', form_client_id = Some ''key-plain'',
      form_client_secret = Some ''secret-plain'', form_scope = Some ''id'',
      form_code = None, form_redirect_uri = None,
      form_username = None, form_password = None\<rparr>"

definition password_request :: "string \<Rightarrow> string \<Rightarrow> token_request" where
  "password_request username password =
     \<lparr>form_grant_type = Some ''password'', form_client_id = Some ''key-trusted'',
      form_client_secret = Some ''secret-trusted'', form_scope = Some ''id'',
      form_code = None, form_redirect_uri = None,
      form_username = Some username, form_password = Some password\<rparr>"





text \<open>
  The row that issuing a token inserts: the object built by \<open>oauth_make_token\<close> in state
  \<open>st\<close>, with the column defaults applied at time \<open>now\<close>.
\<close>

definition stored_token :: "int \<Rightarrow> nat option \<Rightarrow> client \<Rightarrow> string list \<Rightarrow> state \<Rightarrow> authtoken" where
  "stored_token now usr cl scope st =
     \<lparr>authtoken_user_id = usr,
      authtoken_client_id = client_id cl,
      authtoken_token = uuid4 st (uuid_count st),
      authtoken_token_type = Some ''bearer'',
      authtoken_secret =
        Some (uuid4 st (Suc (Suc (uuid_count st))) @ uuid4 st (Suc (Suc (Suc (uuid_count st))))),
      authtoken_scope_col = py_join scope,
      authtoken_created_datetime = Some now,
      authtoken_validity = Some 0,
      authtoken_refresh_token = uuid4 st (Suc (uuid_count st))\<rparr>"

section \<open>Properties\<close>

lemmas sample_defs =
  sample_state_def sample_lib_def alice_def trusted_app_def retired_app_def plain_app_def
  sample_grant_def auth_request_of_def code_request_def credentials_request_def
  password_request_def sample_uuid4_def sample_urlsplit_def split_at_char_def
  sample_urlunsplit_def

lemmas view_defs =
  oauth_token_def oauth_token_authorization_code_def oauth_token_client_credentials_def
  oauth_token_password_def oauth_token_success_def oauth_make_token_def oauth_token_error_def
  oauth_authorize_def oauth_authorize_validated_def oauth_auth_error_def oauth_auth_success_def
  oauth_make_auth_code_def oauth_auth_403_def redirect_to_def make_redirect_url_def
  lookup_user_def check_password_def validate_on_submit_def
  newid_def newsecret_def db_session_add_def db_session_commit_def insert_row_def
  falsy_def get_default_def truthy_int_def json_of_str_def json_of_int_def
  authcode_scope_def authtoken_scope_def timedelta_minutes_def Let_def


subsection \<open>Splitting never yields the empty list\<close>

text \<open>
  Both views test \<^verbatim>\<open>if not scope\<close> on the result of \<^verbatim>\<open>split(u' ')\<close>. The test never
  succeeds: the branches \<^verbatim>\<open>"Scope not specified"\<close> and \<^verbatim>\<open>"Scope is blank"\<close> are dead.
\<close>

lemma py_split_not_Nil: "py_split s \<noteq> []"
  by (induction s) (auto split: list.splits)

lemma py_split_empty: "py_split (get_default None []) = [[]]"
  by (simp add: get_default_def)

subsection \<open>Issuing a token\<close>

lemma commit_one_token:
  assumes "session st = []"
  shows "db_session_commit now (db_session_add (NewAuthToken t) st) =
           st\<lparr>authtokens := authtokens st @
               [t\<lparr>authtoken_token_type :=
                      (case authtoken_token_type t of None \<Rightarrow> Some ''bearer'' | Some x \<Rightarrow> Some x),
                   authtoken_created_datetime :=
                      (case authtoken_created_datetime t of None \<Rightarrow> Some now | Some d \<Rightarrow> Some d),
                   authtoken_validity :=
                      (case authtoken_validity t of None \<Rightarrow> Some 0 | Some v \<Rightarrow> Some v)\<rparr>],
               session := []\<rparr>"
  using assms by (simp add: db_session_commit_def db_session_add_def insert_row_def)

text \<open>
  \<open>oauth_make_token\<close> followed by \<open>oauth_token_success\<close>, as the three grant branches
  call them: the body has three keys, and one row is added.
\<close>

lemma issue_token:
  assumes "session st = []"
  shows "(case oauth_make_token usr cl scope st of
            (token, st1) \<Rightarrow>
              (case oauth_token_success now token st1 of
                 (response, st2) \<Rightarrow> (Inr response :: py_error + response, st2))) =
         (Inr (JsonResponse [(''access_token'', JStr (uuid4 st (uuid_count st))),
                             (''token_type'', JNull),
                             (''scope'', JStr (py_join (py_split (py_join scope))))]
                 200 [(''Cache-Control'', ''no-store'')]),
          st\<lparr>authtokens := authtokens st @ [stored_token now usr cl scope st],
             session := [],
             uuid_count := Suc (Suc (Suc (Suc (uuid_count st))))\<rparr>)"
proof -
  let ?fresh = "\<lparr>authtoken_user_id = usr,
        authtoken_client_id = client_id cl,
        authtoken_token = uuid4 st (uuid_count st),
        authtoken_token_type = None,
        authtoken_secret =
          Some (uuid4 st (Suc (Suc (uuid_count st))) @ uuid4 st (Suc (Suc (Suc (uuid_count st))))),
        authtoken_scope_col = py_join scope,
        authtoken_created_datetime = None,
        authtoken_validity = None,
        authtoken_refresh_token = uuid4 st (Suc (uuid_count st))\<rparr>"
  let ?drawn = "st\<lparr>uuid_count := Suc (Suc (Suc (Suc (uuid_count st))))\<rparr>"
  have mk: "oauth_make_token usr cl scope st = (?fresh, db_session_add (NewAuthToken ?fresh) ?drawn)"
    by (simp add: oauth_make_token_def newid_def newsecret_def Let_def)
  have s: "session ?drawn = []"
    using assms by simp
  show ?thesis
    unfolding mk
    by (simp add: oauth_token_success_def commit_one_token [OF s] truthy_int_def
        json_of_str_def authtoken_scope_def stored_token_def Let_def)
qed

text \<open>Runs of the token endpoint on the sample deployment.\<close>

lemma sample_credentials_run:
  "oauth_token sample_lib 1030000000 credentials_request sample_state =
     (Inr (JsonResponse [(''access_token'', JStr ''uuid-0-AAAAAAAAAAAAAAA''),
                         (''token_type'', JNull), (''scope'', JStr ''id'')]
             200 [(''Cache-Control'', ''no-store'')]),
      sample_state\<lparr>authtokens := [stored_token 1030000000 None plain_app [''id''] sample_state],
                    session := [],
                    uuid_count := 4\<rparr>)"
  by (simp add: view_defs sample_defs stored_token_def)

lemma sample_password_run:
  "oauth_token sample_lib 1030000000 (password_request ''alice'' ''wonderland'') sample_state =
     (Inr (JsonResponse [(''access_token'', JStr ''uuid-0-AAAAAAAAAAAAAAA''),
                         (''token_type'', JNull), (''scope'', JStr ''id'')]
             200 [(''Cache-Control'', ''no-store'')]),
      sample_state\<lparr>authtokens := [stored_token 1030000000 (Some 1) trusted_app [''id''] sample_state],
                    session := [],
                    uuid_count := 4\<rparr>)"
  by (simp add: view_defs sample_defs stored_token_def)

subsection \<open>C1: an authorization code and its \<open>used\<close> flag\<close>

text \<open>
  Whatever the request, the token endpoint leaves the table of authorization codes as
  it found it: the column \<open>authcode_used\<close> is declared, filled with \<^verbatim>\<open>False\<close> on insert,
  and then neither read nor written.
\<close>

lemma redemption_keeps_grants:
  assumes "session st = []"
  shows "authcodes (snd (oauth_token L now rq st)) = authcodes st"
  using assms
  unfolding oauth_token_def oauth_token_authorization_code_def oauth_token_client_credentials_def
    oauth_token_password_def
  by (auto simp: issue_token Let_def split: if_splits option.splits sum.splits)

text \<open>
  Claim C1: an authorization code is redeemable at most once; a second exchange of the
  same code by the same client, with the same redirect URI and inside the validity
  window, fails with \<^verbatim>\<open>invalid_grant\<close>.

  The code does not do this. On the sample deployment the grant \<^verbatim>\<open>code-1\<close>, issued at
  1000 s, is exchanged at 1030 s and again at 1031 s: both exchanges answer 200 with a
  new access token, two tokens are stored, and the grant is unchanged after the first.
\<close>

theorem C1_grant_redeemed_twice:
  "fst (oauth_token sample_lib 1030000000 (code_request (Some ''id'')) sample_state) =
     Inr (JsonResponse [(''access_token'', JStr ''uuid-0-AAAAAAAAAAAAAAA''),
                        (''token_type'', JNull), (''scope'', JStr ''id'')]
            200 [(''Cache-Control'', ''no-store'')])
   \<and> fst (oauth_token sample_lib 1031000000 (code_request (Some ''id''))
           (snd (oauth_token sample_lib 1030000000 (code_request (Some ''id'')) sample_state))) =
     Inr (JsonResponse [(''access_token'', JStr ''uuid-4-AAAAAAAAAAAAAAA''),
                        (''token_type'', JNull), (''scope'', JStr ''id'')]
            200 [(''Cache-Control'', ''no-store'')])
   \<and> map authtoken_token (authtokens
         (snd (oauth_token sample_lib 1031000000 (code_request (Some ''id''))
           (snd (oauth_token sample_lib 1030000000 (code_request (Some ''id'')) sample_state))))) =
       [''uuid-0-AAAAAAAAAAAAAAA'', ''uuid-4-AAAAAAAAAAAAAAA'']
   \<and> authcodes (snd (oauth_token sample_lib 1030000000 (code_request (Some ''id'')) sample_state)) =
       [sample_grant]"
  by (simp add: view_defs sample_defs)

subsection \<open>C2: the requested scope in the authorization-code exchange\<close>

text \<open>
  Once the grant is found and unexpired, a scope that is not a subset of the grant's
  scope reaches \<^verbatim>\<open>raise oauth_token_error(...)\<close>: the view raises \<^verbatim>\<open>TypeError\<close> and
  returns no response.
\<close>

lemma scope_outside_grant_raises:
  assumes "find (\<lambda>a. Some (authcode_code a) = form_code rq \<and> authcode_client_id a = client_id cl)
             (authcodes st) = Some grant"
      and "authcode_datetime grant = Some issued"
      and "\<not> issued < now - timedelta_minutes 1"
      and "\<not> set (py_split (get_default (form_scope rq) [])) \<subseteq> set (authcode_scope grant)"
  shows "oauth_token_authorization_code now rq cl st = (Inl TypeError, st)"
  using assms
  by (simp add: oauth_token_authorization_code_def py_split_not_Nil Let_def)

text \<open>
  Claim C2: in the authorization-code exchange, a supplied scope that is not a subset of
  the grant's scope makes the flow return an \<^verbatim>\<open>invalid_scope\<close> error response (it does
  not abort), and with no scope supplied the token carries the grant's scope.

  The code does neither. On the sample deployment, whose grant has scope \<^verbatim>\<open>id\<close>, the
  request with scope \<^verbatim>\<open>email\<close> raises \<^verbatim>\<open>TypeError\<close>; the request without a scope is
  read as the list \<^verbatim>\<open>[u'']\<close>, which is not a subset either, and raises the same.
\<close>

theorem C2_scope_mismatch_raises:
  "oauth_token sample_lib 1030000000 (code_request (Some ''email'')) sample_state =
     (Inl TypeError, sample_state)
   \<and> oauth_token sample_lib 1030000000 (code_request None) sample_state =
     (Inl TypeError, sample_state)"
  by (simp add: view_defs sample_defs)

subsection \<open>C3: the scope of an authorization request\<close>

text \<open>
  A request that reaches the scope check with no scope, or an empty one, is answered
  with \<^verbatim>\<open>invalid_scope\<close>: its scope is the list \<^verbatim>\<open>[u'']\<close>, which is not empty and is
  not \<^verbatim>\<open>[u'id']\<close>.
\<close>

lemma empty_scope_invalid_scope:
  assumes "args_response_type rq = Some ''code''"
      and "falsy (args_scope rq)"
  shows "oauth_authorize_validated L now g_user rq cl uri st =
           (oauth_auth_error L (Some uri) (args_state rq) ''invalid_scope'' None None, st)"
  using assms
  by (auto simp: oauth_authorize_validated_def falsy_def get_default_def Let_def)

text \<open>The second half of the claim holds: any scope other than \<^verbatim>\<open>id\<close> is \<^verbatim>\<open>invalid_scope\<close>.\<close>

lemma other_scope_invalid_scope:
  assumes "args_response_type rq = Some ''code''"
      and "set (py_split (get_default (args_scope rq) [])) \<noteq> {''id''}"
  shows "oauth_authorize_validated L now g_user rq cl uri st =
           (oauth_auth_error L (Some uri) (args_state rq) ''invalid_scope'' None None, st)"
proof -
  from assms(2) have "py_split (get_default (args_scope rq) []) \<noteq> [''id'']"
    by auto
  with assms(1) show ?thesis
    by (simp add: oauth_authorize_validated_def falsy_def py_split_not_Nil Let_def)
qed

text \<open>
  Claim C3: for an authorization request that passed the client and redirect-URI checks
  with a valid response type, an empty scope gives \<^verbatim>\<open>invalid_request\<close>, and a non-empty
  scope other than the set \<^verbatim>\<open>{id}\<close> gives \<^verbatim>\<open>invalid_scope\<close>.

  The code answers the empty scope with \<^verbatim>\<open>invalid_scope\<close>, not \<^verbatim>\<open>invalid_request\<close>: on
  the sample deployment, both for a request without the parameter and for one with
  \<^verbatim>\<open>scope=\<close>.
\<close>

theorem C3_empty_scope_is_invalid_scope:
  "oauth_authorize sample_lib 0 alice (auth_request_of (Some ''key-plain'') None None)
     sample_state =
     (Inr (Redirect ''https://plain.example/cb?error=invalid_scope'' 302), sample_state)
   \<and> oauth_authorize sample_lib 0 alice (auth_request_of (Some ''key-plain'') None (Some []))
     sample_state =
     (Inr (Redirect ''https://plain.example/cb?error=invalid_scope'' 302), sample_state)"
  by (simp add: view_defs sample_defs)

subsection \<open>C4: an inactive client\<close>

text \<open>
  For a known, inactive client the view calls \<open>oauth_auth_error\<close> with the request's
  \<open>redirect_uri\<close> as it came. Without one, that is \<^verbatim>\<open>None\<close>, and building the
  redirect raises.
\<close>

lemma inactive_client_without_redirect_uri:
  assumes "\<not> falsy (args_client_id rq)"
      and "find (\<lambda>c. Some (client_key c) = args_client_id rq) (clients st) = Some cl"
      and "\<not> client_active cl"
      and "args_redirect_uri rq = None"
  shows "oauth_authorize L now g_user rq st = (Inl AttributeError, st)"
  using assms
  by (simp add: oauth_authorize_def oauth_auth_error_def redirect_to_def make_redirect_url_def
      Let_def)

text \<open>
  Claim C4: an authorization request for a known but inactive client ends with an
  \<^verbatim>\<open>unauthorized_client\<close> error, delivered as a direct response (never a redirect, never
  an abort) when the request has no \<^verbatim>\<open>redirect_uri\<close>.

  The code has no direct response on this path, unlike the two checks before it. On
  the sample deployment the request for the deactivated client, without
  \<^verbatim>\<open>redirect_uri\<close>, raises \<^verbatim>\<open>AttributeError\<close>.
\<close>

theorem C4_inactive_client_no_redirect_uri:
  "oauth_authorize sample_lib 0 alice (auth_request_of (Some ''key-retired'') None (Some ''id''))
     sample_state = (Inl AttributeError, sample_state)"
  by (simp add: view_defs sample_defs)

subsection \<open>C5: the user lookup of the password grant\<close>

text \<open>
  An identifier with \<^verbatim>\<open>@\<close> that is no registered email makes the lookup raise: the
  attribute \<^verbatim>\<open>user\<close> is read from \<^verbatim>\<open>None\<close>. An identifier without \<^verbatim>\<open>@\<close> never raises.
\<close>

lemma unknown_email_raises:
  assumes "CHR ''@'' \<in> set username"
      and "find (\<lambda>e. useremail_email e = Some username) (useremails st) = None"
  shows "lookup_user username st = Inl AttributeError"
  using assms by (simp add: lookup_user_def)

lemma username_lookup_total:
  assumes "CHR ''@'' \<notin> set username"
  shows "lookup_user username st = Inr (find (\<lambda>u. user_username u = Some username) (users st))"
  using assms by (simp add: lookup_user_def)

text \<open>
  Claim C5: a password-grant request from an active, trusted client with the right
  secret, a username and a password, whose username resolves to no user (an email-form
  identifier that matches no registered email included), gets an \<^verbatim>\<open>invalid_client\<close>
  error response; the lookup never raises.

  The code raises on the email form. On the sample deployment the request for
  \<^verbatim>\<open>nobody@example.com\<close> raises \<^verbatim>\<open>AttributeError\<close>.
\<close>

theorem C5_unknown_email_raises:
  "oauth_token sample_lib 1030000000 (password_request ''nobody@example.com'' ''wonderland'')
     sample_state = (Inl AttributeError, sample_state)"
  by (simp add: view_defs sample_defs)

subsection \<open>C6: the redirect URI cross-check\<close>

text \<open>
  The cross-check and the error redirect both call the library, and the view catches
  nothing: when \<^verbatim>\<open>urlsplit\<close> raises on the supplied URI the view raises, and so does
  \<open>oauth_auth_error\<close> when the redirect URL cannot be built.
\<close>

lemma cross_check_urlsplit_raises:
  assumes "\<not> falsy (args_client_id rq)"
      and "find (\<lambda>c. Some (client_key c) = args_client_id rq) (clients st) = Some cl"
      and "client_active cl"
      and "args_redirect_uri rq = Some uri" and "uri \<noteq> []" and "uri \<noteq> client_redirect_uri cl"
      and "urlsplit L uri = Inl e"
  shows "oauth_authorize L now g_user rq st = (Inl e, st)"
  using assms
  by (auto simp: oauth_authorize_def falsy_def Let_def)

lemma auth_error_raises:
  assumes "make_redirect_url L uri
             ([(''error'', error)]
              @ (case state of None \<Rightarrow> [] | Some s \<Rightarrow> [(''state'', s)])
              @ (case description of None \<Rightarrow> [] | Some d \<Rightarrow> [(''error_description'', d)])) = Inl e"
  shows "oauth_auth_error L uri state error description None = Inl e"
  using assms
  by (auto simp: oauth_auth_error_def redirect_to_def Let_def split: option.splits)




subsection \<open>C7: the validity window of an authorization code\<close>

text \<open>
  Claim C7: in the authorization-code exchange (known, active client with the right
  secret), a grant issued more than 60 seconds before the exchange fails with
  \<^verbatim>\<open>invalid_grant\<close> (\<^verbatim>\<open>"Expired auth code"\<close>); a grant exchanged less than 60 seconds after
  it was issued passes the expiry check: whatever the view answers, it is no
  \<^verbatim>\<open>invalid_grant\<close> error. Times are in microseconds.
\<close>

theorem C7_expiry_window:
  assumes "form_grant_type rq = Some ''authorization_code''"
      and "\<not> falsy (form_client_id rq)"
      and "find (\<lambda>c. Some (client_key c) = form_client_id rq) (clients st) = Some cl"
      and "client_active cl"
      and "form_client_secret rq = Some (client_secret cl)"
      and "client_secret cl \<noteq> []"
      and "find (\<lambda>a. Some (authcode_code a) = form_code rq \<and> authcode_client_id a = client_id cl)
             (authcodes st) = Some grant"
      and "authcode_datetime grant = Some issued"
  shows "(60 * 1000000 < now - issued \<longrightarrow>
            oauth_token L now rq st =
              (Inr (oauth_token_error ''invalid_grant'' (Some ''Expired auth code'') None), st))
       \<and> (now - issued < 60 * 1000000 \<longrightarrow>
            (\<forall>d u. fst (oauth_token L now rq st) \<noteq> Inr (oauth_token_error ''invalid_grant'' d u)))"
proof (intro conjI impI allI)
  assume "60 * 1000000 < now - issued"
  then show "oauth_token L now rq st =
              (Inr (oauth_token_error ''invalid_grant'' (Some ''Expired auth code'') None), st)"
    using assms
    by (auto simp: oauth_token_def oauth_token_authorization_code_def falsy_def
        timedelta_minutes_def Let_def)
next
  fix d u
  assume "now - issued < 60 * 1000000"
  then have fresh: "\<not> issued < now - timedelta_minutes 1"
    by (simp add: timedelta_minutes_def)
  show "fst (oauth_token L now rq st) \<noteq> Inr (oauth_token_error ''invalid_grant'' d u)"
    using assms fresh
    by (auto simp: oauth_token_def oauth_token_authorization_code_def falsy_def
        oauth_token_success_def oauth_token_error_def Let_def split_def
        split: option.splits)
qed

text \<open>The sample grant, issued at 1000 s: expired at 1061 s, not expired at 1059 s.\<close>

theorem C7_witness:
  "(60 * 1000000 < (1061000000::int) - 1000000000
    \<and> oauth_token sample_lib 1061000000 (code_request (Some ''id'')) sample_state =
        (Inr (oauth_token_error ''invalid_grant'' (Some ''Expired auth code'') None), sample_state))
   \<and> ((1059000000::int) - 1000000000 < 60 * 1000000
    \<and> fst (oauth_token sample_lib 1059000000 (code_request (Some ''id'')) sample_state) \<noteq>
        Inr (oauth_token_error ''invalid_grant'' (Some ''Expired auth code'') None))"
proof -
  let ?rq = "code_request (Some ''id'')"
  have h1: "form_grant_type ?rq = Some ''authorization_code''"
    by (simp add: code_request_def)
  have h2: "\<not> falsy (form_client_id ?rq)"
    by (simp add: code_request_def falsy_def)
  have h3: "find (\<lambda>c. Some (client_key c) = form_client_id ?rq) (clients sample_state)
              = Some plain_app"
    by (simp add: sample_defs)
  have h4: "client_active plain_app"
    by (simp add: plain_app_def)
  have h5: "form_client_secret ?rq = Some (client_secret plain_app)"
    by (simp add: code_request_def plain_app_def)
  have h6: "client_secret plain_app \<noteq> []"
    by (simp add: plain_app_def)
  have h7: "find (\<lambda>a. Some (authcode_code a) = form_code ?rq
                      \<and> authcode_client_id a = client_id plain_app)
              (authcodes sample_state) = Some sample_grant"
    by (simp add: sample_defs)
  have h8: "authcode_datetime sample_grant = Some 1000000000"
    by (simp add: sample_grant_def)
  note late = C7_expiry_window [OF h1 h2 h3 h4 h5 h6 h7 h8, of 1061000000 sample_lib]
  note early = C7_expiry_window [OF h1 h2 h3 h4 h5 h6 h7 h8, of 1059000000 sample_lib]
  from late early show ?thesis by simp
qed

subsection \<open>C8: a request without \<open>client_id\<close>\<close>




subsection \<open>C9: the client-credentials grant\<close>

text \<open>
  Claim C9: a token issued through the \<^verbatim>\<open>client_credentials\<close> grant has no user. When
  the endpoint answers such a request with success (status 200), exactly one token row
  was added, it is the one the body names, and its user is \<^verbatim>\<open>None\<close>, for every client
  and every scope. A request starts with an empty session.
\<close>

theorem C9_client_credentials_no_user:
  assumes "form_grant_type rq = Some ''client_credentials''"
      and "oauth_token L now rq st = (Inr (JsonResponse body 200 hdrs), st')"
      and "session st = []"
  shows "\<exists>t. authtokens st' = authtokens st @ [t]
           \<and> authtoken_user_id t = None
           \<and> map_of body ''access_token'' = Some (JStr (authtoken_token t))"
  using assms
  unfolding oauth_token_def oauth_token_client_credentials_def
  by (auto simp: issue_token oauth_token_error_def stored_token_def Let_def
      split: if_splits option.splits)

theorem C9_witness:
  "form_grant_type credentials_request = Some ''client_credentials''
   \<and> session sample_state = []
   \<and> (\<exists>t. authtokens (snd (oauth_token sample_lib 1030000000 credentials_request sample_state))
             = authtokens sample_state @ [t]
           \<and> authtoken_user_id t = None)"
proof -
  have g: "form_grant_type credentials_request = Some ''client_credentials''"
    by (simp add: credentials_request_def)
  have s: "session sample_state = []" by (simp add: sample_state_def)
  from C9_client_credentials_no_user [OF g sample_credentials_run s] g s
  show ?thesis by (auto simp: sample_credentials_run)
qed

subsection \<open>C10: validity, token type and the keys of the success body\<close>

text \<open>
  Claim C10: under any of the three grant types, the token the endpoint issues is
  stored with validity 0 and token type \<^verbatim>\<open>bearer\<close>, and with the refresh token that was
  generated for it; the success body has exactly the keys \<^verbatim>\<open>access_token\<close>,
  \<^verbatim>\<open>token_type\<close> and \<^verbatim>\<open>scope\<close>, so neither \<^verbatim>\<open>expires_in\<close> nor \<^verbatim>\<open>refresh_token\<close>.
\<close>

theorem C10_issued_token_shape:
  assumes "oauth_token L now rq st = (Inr (JsonResponse body 200 hdrs), st')"
      and "session st = []"
  shows "\<exists>t. authtokens st' = authtokens st @ [t]
           \<and> authtoken_validity t = Some 0
           \<and> authtoken_token_type t = Some ''bearer''
           \<and> authtoken_refresh_token t = uuid4 st (Suc (uuid_count st))
           \<and> map fst body = [''access_token'', ''token_type'', ''scope'']
           \<and> map_of body ''access_token'' = Some (JStr (authtoken_token t))"
  using assms
  unfolding oauth_token_def oauth_token_authorization_code_def oauth_token_client_credentials_def
    oauth_token_password_def
  by (auto simp: issue_token oauth_token_error_def stored_token_def Let_def
      split: if_splits option.splits sum.splits)

theorem C10_witness:
  "session sample_state = []
   \<and> (\<exists>t. authtokens (snd (oauth_token sample_lib 1030000000
                                (password_request ''alice'' ''wonderland'') sample_state))
             = authtokens sample_state @ [t]
           \<and> authtoken_validity t = Some 0
           \<and> authtoken_token_type t = Some ''bearer''
           \<and> authtoken_refresh_token t = ''uuid-1-AAAAAAAAAAAAAAA'')"
proof -
  have s: "session sample_state = []"
    by (simp add: sample_state_def)
  have u: "uuid4 sample_state (Suc (uuid_count sample_state)) = ''uuid-1-AAAAAAAAAAAAAAA''"
    by (simp add: sample_state_def sample_uuid4_def)
  from C10_issued_token_shape [OF sample_password_run s] s u
  show ?thesis by (auto simp: sample_password_run)
qed

end
